theory Spec2Isabelle
  imports Complex_Main
begin

section \<open>Data model of the query-subscription consumer\<close>

text \<open>
  The embedding follows \<^verbatim>\<open>src/sentry/snuba/query_subscriptions/run.py\<close>.
  Python \<^verbatim>\<open>bytes\<close> are byte lists (a HOL \<open>char\<close> is a byte), Python integers are
  \<open>int\<close>, a raised exception is the \<open>Inl\<close> branch of a sum.
\<close>

type_synonym bytes = string

text \<open>
  \<^verbatim>\<open>sentry.snuba.dataset.Dataset\<close> is an enum declared outside the files at hand; the code
  only reads a member's \<^verbatim>\<open>.value\<close> and uses members as dictionary keys, so a member is
  identified by its value.
\<close>

datatype Dataset = Dataset (dataset_value: string)

text \<open>
  The exception classes that occur. \<open>KeyboardInterrupt\<close> and \<open>SystemExit\<close> derive from
  \<^verbatim>\<open>BaseException\<close> only; everything else here derives from \<^verbatim>\<open>Exception\<close>.
  \<open>UnknownTopicError\<close> and \<open>PoolClosedError\<close> are the names used by the design document.
\<close>

datatype exc =
    AssertionError
  | KeyError string
  | OSError
  | UnknownTopicError string
  | PoolClosedError
  | KeyboardInterrupt
  | SystemExit
  | OtherException string

text \<open>\<^verbatim>\<open>isinstance(e, Exception)\<close>: what the clause \<^verbatim>\<open>except Exception:\<close> catches.\<close>

fun is_Exception :: "exc \<Rightarrow> bool" where
  "is_Exception KeyboardInterrupt = False"
| "is_Exception SystemExit = False"
| "is_Exception _ = True"

text \<open>arroyo's message types, as far as \<^verbatim>\<open>process_message\<close> reads them.\<close>

datatype Partition = Partition (partition_topic: string) (index: int)

datatype KafkaPayload =
  KafkaPayload (payload_key: "bytes option") (payload_value: bytes) (payload_headers: "(string \<times> bytes) list")

datatype message_value =
    BrokerValue (bv_payload: KafkaPayload) (bv_partition: Partition) (bv_offset: int) (bv_timestamp: int)
  | Value (v_payload: KafkaPayload) (v_committable: "(Partition \<times> int) list")

datatype Message = Message (message_value: message_value)

text \<open>
  A codec of \<^verbatim>\<open>sentry_kafka_schemas\<close>: the topic it is registered for and its decoder,
  which either raises or returns the structured record.
\<close>

datatype codec = Codec (codec_topic: string) (decode: "bytes \<Rightarrow> exc + (string \<times> string) list")

section \<open>The per-message processor\<close>

text \<open>
  One call of the external \<^verbatim>\<open>handle_message\<close>, with the six positional arguments of
  lines 89-96, and one record written by \<^verbatim>\<open>logger.exception\<close> with its \<^verbatim>\<open>extra\<close>
  dictionary (lines 101-108).
\<close>

record handler_call =
  hc_payload :: bytes
  hc_offset :: int
  hc_partition :: int
  hc_topic :: string
  hc_dataset :: string
  hc_codec :: codec

record log_record =
  log_text :: string
  log_exc :: exc
  extra_offset :: int
  extra_partition :: int
  extra_value :: bytes

text \<open>The observable effects of processing: the handler's calls and the log, both in order.\<close>

record proc_state =
  handler_calls :: "handler_call list"
  logged :: "log_record list"

definition skip_text :: string where
  "skip_text = ''Unexpected error while handling message in QuerySubscriptionStrategy. Skipping message.''"

text \<open>
  \<^verbatim>\<open>process_message(dataset, topic, logical_topic, message)\<close>. The external collaborators
  are parameters: \<open>get_codec\<close> (which may raise) and \<open>handle_message\<close>, a handler whose
  outcome may depend on the calls it has seen so far: \<open>None\<close> when it returns, \<open>Some e\<close>
  when it raises \<open>e\<close>. The arguments of the call are evaluated inside the \<^verbatim>\<open>try\<close>
  block, left to right, so a \<open>get_codec\<close> that raises is handled by the same clause and
  the handler is not called. The tracing transaction and the timer around the body do
  not change the result and are left out.
\<close>

definition process_message ::
  "(string \<Rightarrow> exc + codec) \<Rightarrow> (handler_call list \<Rightarrow> handler_call \<Rightarrow> exc option) \<Rightarrow>
   Dataset \<Rightarrow> string \<Rightarrow> string \<Rightarrow> Message \<Rightarrow> proc_state \<Rightarrow> (exc + unit) \<times> proc_state" where
  "process_message get_codec handle_message dataset' topic' logical_topic' message s =
    (case message_value message of
      Value _ _ \<Rightarrow> (Inl AssertionError, s)
    | BrokerValue pl part off ts \<Rightarrow>
        (let offset = off;
             partition_index = index part;
             message_value' = payload_value pl;
             (raised, s1) =
               (case get_codec logical_topic' of
                  Inl e \<Rightarrow> (Some e, s)
                | Inr c \<Rightarrow>
                    (let call = \<lparr>hc_payload = message_value', hc_offset = offset,
                                 hc_partition = partition_index, hc_topic = topic',
                                 hc_dataset = dataset_value dataset', hc_codec = c\<rparr>
                     in (handle_message (handler_calls s) call,
                         s\<lparr>handler_calls := handler_calls s @ [call]\<rparr>)))
         in (case raised of
               None \<Rightarrow> (Inr (), s1)
             | Some e \<Rightarrow>
                 if is_Exception e
                 then (Inr (), s1\<lparr>logged := logged s1 @
                         [\<lparr>log_text = skip_text, log_exc = e, extra_offset = offset,
                           extra_partition = partition_index, extra_value = message_value'\<rparr>]\<rparr>)
                 else (Inl e, s1))))"

text \<open>
  The driver hands the messages to the callable one after the other; an exception that
  leaves \<^verbatim>\<open>process_message\<close> is not caught by anything in this file, so it ends the
  loop and with it the consumer.
\<close>

fun run_messages ::
  "(string \<Rightarrow> exc + codec) \<Rightarrow> (handler_call list \<Rightarrow> handler_call \<Rightarrow> exc option) \<Rightarrow>
   Dataset \<Rightarrow> string \<Rightarrow> string \<Rightarrow> Message list \<Rightarrow> proc_state \<Rightarrow> (exc + unit) \<times> proc_state" where
  "run_messages gc h ds tp lt [] s = (Inr (), s)"
| "run_messages gc h ds tp lt (m # ms) s =
    (case process_message gc h ds tp lt m s of
      (Inl e, s') \<Rightarrow> (Inl e, s')
    | (Inr _, s') \<Rightarrow> run_messages gc h ds tp lt ms s')"

text \<open>
  The arguments \<^verbatim>\<open>process_message\<close> hands to the handler for a message (lines 85-96),
  once the codec \<open>c\<close> is resolved: the payload's raw value, the offset, the partition's
  index, the topic, the dataset's value and the codec.
\<close>

definition call_for :: "codec \<Rightarrow> Dataset \<Rightarrow> string \<Rightarrow> Message \<Rightarrow> handler_call" where
  "call_for c ds tp m =
     \<lparr>hc_payload = payload_value (bv_payload (message_value m)),
      hc_offset = bv_offset (message_value m),
      hc_partition = index (bv_partition (message_value m)),
      hc_topic = tp, hc_dataset = dataset_value ds, hc_codec = c\<rparr>"

section \<open>The worker pool\<close>

text \<open>
  Pool objects live in a store and are referred to by their position in it, so that
  two references to one pool can be told from two pools. \<open>os_slots\<close> is the concurrency
  the operating system can still grant.
\<close>

record pool_obj =
  pool_slots :: int
  pool_in_flight :: "nat list"
  pool_closed :: bool

record heap =
  pools :: "pool_obj list"
  os_slots :: int

text \<open>
  Modelled from the spec: the class \<^verbatim>\<open>MultiprocessingPool\<close> of \<^verbatim>\<open>sentry.utils.arroyo\<close>
  is not among the source files. Section 4.2: \<^verbatim>\<open>construct(size)\<close> allocates \<open>size\<close>
  long-lived execution slots and fails fatally if the operating system cannot allocate
  the requested concurrency.
\<close>

definition MultiprocessingPool :: "int \<Rightarrow> heap \<Rightarrow> exc + nat \<times> heap" where
  "MultiprocessingPool size' h =
    (if 0 \<le> size' \<and> size' \<le> os_slots h
     then Inr (length (pools h),
               h\<lparr>pools := pools h @ [\<lparr>pool_slots = size', pool_in_flight = [], pool_closed = False\<rparr>],
                 os_slots := os_slots h - size'\<rparr>)
     else Inl OSError)"

text \<open>
  Modelled from the spec: \<^verbatim>\<open>submit(task)\<close> of the absent pool class. Section 4.2: it
  enqueues a unit of work and returns a handle for its completion; calling it after
  \<^verbatim>\<open>shutdown\<close> fails with \<open>PoolClosedError\<close>. The handle is the task's place in the queue.
\<close>

definition pool_submit :: "nat \<Rightarrow> nat \<Rightarrow> heap \<Rightarrow> exc + nat \<times> heap" where
  "pool_submit r task h =
    (if r < length (pools h)
     then (let p = pools h ! r in
           if pool_closed p then Inl PoolClosedError
           else Inr (length (pool_in_flight p),
                     h\<lparr>pools := (pools h)[r := p\<lparr>pool_in_flight := pool_in_flight p @ [task]\<rparr>]\<rparr>))
     else Inl (OtherException ''no such pool''))"

text \<open>
  Modelled from the spec: \<^verbatim>\<open>close()\<close> of the absent pool class, the design's
  \<^verbatim>\<open>shutdown()\<close>. Section 4.2: it blocks until all previously submitted tasks complete
  or are abandoned, then releases all slots. A reference that is not in the store
  cannot arise from this file's constructors; the store is then left as it is.
\<close>

definition pool_close :: "nat \<Rightarrow> heap \<Rightarrow> heap" where
  "pool_close r h =
    (if r < length (pools h)
     then (let p = pools h ! r in
           h\<lparr>pools := (pools h)[r := p\<lparr>pool_slots := 0, pool_in_flight := [], pool_closed := True\<rparr>],
             os_slots := os_slots h + pool_slots p\<rparr>)
     else h)"

section \<open>The strategy factory\<close>

text \<open>The fields \<^verbatim>\<open>__init__\<close> assigns (lines 39-47); \<open>pool\<close> is a reference into the store.\<close>

record factory =
  topic :: string
  dataset :: Dataset
  logical_topic :: string
  max_batch_size :: int
  max_batch_time :: int
  input_block_size :: "int option"
  output_block_size :: "int option"
  multi_proc :: bool
  pool :: nat

text \<open>
  \<^verbatim>\<open>QuerySubscriptionStrategyFactory.__init__\<close>. The two dictionaries of
  \<^verbatim>\<open>sentry.snuba.query_subscriptions.constants\<close> are parameters; subscripting a
  dictionary with a missing key raises \<open>KeyError\<close> with that key. The assignments run in
  the order of the source, so a failed lookup leaves the store untouched.
\<close>

definition QuerySubscriptionStrategyFactory ::
  "(string \<rightharpoonup> Dataset) \<Rightarrow> (Dataset \<rightharpoonup> string) \<Rightarrow> string \<Rightarrow> int \<Rightarrow> int \<Rightarrow> int \<Rightarrow>
   int option \<Rightarrow> int option \<Rightarrow> bool \<Rightarrow> heap \<Rightarrow> exc + factory \<times> heap" where
  "QuerySubscriptionStrategyFactory topic_to_dataset dataset_to_logical_topic topic' max_batch_size'
      max_batch_time' num_processes input_block_size' output_block_size' multi_proc' h =
    (case topic_to_dataset topic' of
      None \<Rightarrow> Inl (KeyError topic')
    | Some ds \<Rightarrow>
        (case dataset_to_logical_topic ds of
          None \<Rightarrow> Inl (KeyError (dataset_value ds))
        | Some lt \<Rightarrow>
            (case MultiprocessingPool num_processes h of
              Inl e \<Rightarrow> Inl e
            | Inr (p, h') \<Rightarrow>
                Inr (\<lparr>topic = topic', dataset = ds, logical_topic = lt,
                      max_batch_size = max_batch_size', max_batch_time = max_batch_time',
                      input_block_size = input_block_size', output_block_size = output_block_size',
                      multi_proc = multi_proc', pool = p\<rparr>, h'))))"

text \<open>
  The strategies \<^verbatim>\<open>create_with_partitions\<close> builds. The callable is
  \<^verbatim>\<open>partial(process_message, dataset, topic, logical_topic)\<close>; a commit callback is
  identified by a number.
\<close>

datatype callable = partial_process_message Dataset string string

type_synonym Commit = nat

datatype next_step = CommitOffsets Commit

datatype strategy =
    RunTaskWithMultiprocessing (rt_function: callable) (rt_next_step: next_step)
      (rt_max_batch_size: int) (rt_max_batch_time: int) (rt_pool: nat)
      (rt_input_block_size: "int option") (rt_output_block_size: "int option")
  | RunTask (rt_function: callable) (rt_next_step: next_step)

text \<open>The pool a strategy holds a reference to, if any.\<close>

fun strategy_pool :: "strategy \<Rightarrow> nat option" where
  "strategy_pool (RunTaskWithMultiprocessing fn nx mbs mbt p ibs obs) = Some p"
| "strategy_pool (RunTask fn nx) = None"

text \<open>
  \<^verbatim>\<open>create_with_partitions(self, commit, partitions)\<close>, lines 49-66. A method may assign
  to \<^verbatim>\<open>self\<close> and act on the store, so both are returned with the strategy.
\<close>

definition create_with_partitions ::
  "factory \<Rightarrow> heap \<Rightarrow> Commit \<Rightarrow> (Partition \<times> int) list \<Rightarrow> strategy \<times> factory \<times> heap" where
  "create_with_partitions self h commit partitions =
    (let callable' = partial_process_message (dataset self) (topic self) (logical_topic self) in
     if multi_proc self
     then (RunTaskWithMultiprocessing callable' (CommitOffsets commit)
             (max_batch_size self) (max_batch_time self) (pool self)
             (input_block_size self) (output_block_size self), self, h)
     else (RunTask callable' (CommitOffsets commit), self, h))"

text \<open>\<^verbatim>\<open>shutdown(self)\<close>, lines 68-69: it closes the factory's pool and does nothing else.\<close>

definition shutdown :: "factory \<Rightarrow> heap \<Rightarrow> factory \<times> heap" where
  "shutdown self h = (self, pool_close (pool self) h)"

text \<open>One \<^verbatim>\<open>create_with_partitions\<close> call per rebalance, in order.\<close>

fun create_many ::
  "factory \<Rightarrow> heap \<Rightarrow> (Commit \<times> (Partition \<times> int) list) list \<Rightarrow> strategy list \<times> factory \<times> heap" where
  "create_many self h [] = ([], self, h)"
| "create_many self h ((commit, partitions) # rest) =
    (case create_with_partitions self h commit partitions of
      (st, self', h') \<Rightarrow>
        (case create_many self' h' rest of
          (sts, self'', h'') \<Rightarrow> (st # sts, self'', h'')))"

section \<open>Building the consumer\<close>

text \<open>
  The broker configuration is resolved outside this file: \<open>topic_cluster\<close> stands for
  \<^verbatim>\<open>kafka_config.get_topic_definition(topic)["cluster"]\<close> and \<open>cluster_options\<close> for
  \<^verbatim>\<open>kafka_config.get_kafka_consumer_cluster_options\<close>; either may raise.
\<close>

record kafka_env =
  topic_cluster :: "string \<Rightarrow> exc + string"
  cluster_options :: "string \<Rightarrow> exc + (string \<times> string) list"

record consumer_configuration =
  cfg_cluster_options :: "(string \<times> string) list"
  cfg_group_id :: string
  cfg_strict_offset_reset :: bool
  cfg_auto_offset_reset :: string

datatype KafkaConsumer = KafkaConsumer consumer_configuration

text \<open>
  A commit policy: the least time between two commits and the least number of messages
  between two commits, each optional.
\<close>

record CommitPolicy =
  min_commit_frequency_sec :: "real option"
  min_commit_messages :: "int option"

text \<open>
  Modelled from the spec: the constant \<^verbatim>\<open>ONCE_PER_SECOND\<close> is imported from
  \<^verbatim>\<open>arroyo.commit\<close> and its value is not among the source files. Section 6: the
  commit cadence is a fixed interval of one second, a constant; section 4.5: it does not
  depend on message volume. So the interval is one second and no message threshold is set.
\<close>

definition ONCE_PER_SECOND :: CommitPolicy where
  "ONCE_PER_SECOND = \<lparr>min_commit_frequency_sec = Some 1, min_commit_messages = None\<rparr>"

record StreamProcessor =
  sp_consumer :: KafkaConsumer
  sp_topic :: string
  processor_factory :: factory
  commit_policy :: CommitPolicy

text \<open>
  \<^verbatim>\<open>get_query_subscription_consumer\<close>, lines 111-151. The statements run in the order
  of the source: the cluster and its options are looked up, the Kafka consumer is
  configured, and the factory is constructed while the arguments of
  \<^verbatim>\<open>StreamProcessor\<close> are evaluated. \<^verbatim>\<open>initialize_metrics\<close> only registers the
  metrics backend and is left out.
\<close>

definition get_query_subscription_consumer ::
  "kafka_env \<Rightarrow> (string \<rightharpoonup> Dataset) \<Rightarrow> (Dataset \<rightharpoonup> string) \<Rightarrow> string \<Rightarrow> string \<Rightarrow> bool \<Rightarrow> string \<Rightarrow>
   int \<Rightarrow> int \<Rightarrow> int \<Rightarrow> int option \<Rightarrow> int option \<Rightarrow> bool \<Rightarrow> heap \<Rightarrow> exc + StreamProcessor \<times> heap" where
  "get_query_subscription_consumer env topic_to_dataset dataset_to_logical_topic topic' group_id
      strict_offset_reset initial_offset_reset max_batch_size' max_batch_time' num_processes
      input_block_size' output_block_size' multi_proc' h =
    (case topic_cluster env topic' of
      Inl e \<Rightarrow> Inl e
    | Inr cluster_name \<Rightarrow>
        (case cluster_options env cluster_name of
          Inl e \<Rightarrow> Inl e
        | Inr opts \<Rightarrow>
            (let consumer = KafkaConsumer
                   \<lparr>cfg_cluster_options = opts, cfg_group_id = group_id,
                    cfg_strict_offset_reset = strict_offset_reset,
                    cfg_auto_offset_reset = initial_offset_reset\<rparr>
             in (case QuerySubscriptionStrategyFactory topic_to_dataset dataset_to_logical_topic topic'
                        max_batch_size' max_batch_time' num_processes input_block_size'
                        output_block_size' multi_proc' h of
                   Inl e \<Rightarrow> Inl e
                 | Inr (f, h') \<Rightarrow>
                     Inr (\<lparr>sp_consumer = consumer, sp_topic = topic', processor_factory = f,
                           commit_policy = ONCE_PER_SECOND\<rparr>, h')))))"

text \<open>
  Modelled from the spec: the commit decision of arroyo's stream processor is not among
  the source files. Sections 4.5 and 6: recorded checkpoints are committed on a fixed
  wall-clock cadence. A policy asks for a commit once its message threshold, if it has
  one, is reached by the messages seen since the last commit, or once its interval, if
  it has one, has passed since the last commit.
\<close>

definition should_commit :: "CommitPolicy \<Rightarrow> real \<Rightarrow> real \<Rightarrow> int \<Rightarrow> bool" where
  "should_commit policy last_commit now n_messages =
    ((case min_commit_messages policy of None \<Rightarrow> False | Some m \<Rightarrow> m \<le> n_messages) \<or>
     (case min_commit_frequency_sec policy of None \<Rightarrow> False | Some f \<Rightarrow> f \<le> now - last_commit))"

section \<open>Batching and shutdown\<close>

text \<open>
  What a strategy holds between two flushes: the items of the open batch, the time its
  first item arrived, and the batches already handed to the next step, oldest first.
\<close>

record 'a batch_state =
  batch_items :: "'a list"
  batch_start :: "real option"
  flushed :: "'a list list"

definition batch_flush :: "'a batch_state \<Rightarrow> 'a batch_state" where
  "batch_flush b = b\<lparr>batch_items := [], batch_start := None, flushed := flushed b @ [batch_items b]\<rparr>"

text \<open>
  Modelled from the spec: the batching of \<^verbatim>\<open>RunTaskWithMultiprocessing\<close>
  (\<^verbatim>\<open>sentry.utils.arroyo\<close>) is not among the source files. Section 4.4: the open batch is
  flushed downstream when (a) its count reaches \<open>max_batch_size\<close>, or (b) the time since
  its first item reaches \<open>max_batch_time\<close>; a flush resets both counters.
\<close>

definition batch_time_due :: "int \<Rightarrow> real \<Rightarrow> 'a batch_state \<Rightarrow> bool" where
  "batch_time_due max_batch_time' now b =
    (case batch_start b of None \<Rightarrow> False | Some t0 \<Rightarrow> batch_items b \<noteq> [] \<and> real_of_int max_batch_time' \<le> now - t0)"

definition batch_poll :: "int \<Rightarrow> real \<Rightarrow> 'a batch_state \<Rightarrow> 'a batch_state" where
  "batch_poll max_batch_time' now b = (if batch_time_due max_batch_time' now b then batch_flush b else b)"

text \<open>
  Modelled from the spec: accepting one unit (section 4.4, and the batch-trigger
  property of section 8). A batch whose deadline has passed is flushed with exactly the
  items queued at that point; the unit then joins the open batch, which is flushed at
  once if that makes its count reach \<open>max_batch_size\<close>.
\<close>

definition batch_submit :: "int \<Rightarrow> int \<Rightarrow> real \<Rightarrow> 'a \<Rightarrow> 'a batch_state \<Rightarrow> 'a batch_state" where
  "batch_submit max_batch_size' max_batch_time' now x b =
    (let b1 = batch_poll max_batch_time' now b;
         b2 = b1\<lparr>batch_items := batch_items b1 @ [x],
                 batch_start := (case batch_start b1 of None \<Rightarrow> Some now | Some t0 \<Rightarrow> Some t0)\<rparr>
     in if max_batch_size' \<le> int (length (batch_items b2)) then batch_flush b2 else b2)"

text \<open>
  Modelled from the spec: closing a strategy. Section 4.4: on shutdown, any partial
  batch is flushed before teardown completes.
\<close>

definition batch_close :: "'a batch_state \<Rightarrow> 'a batch_state" where
  "batch_close b = (if batch_items b = [] then b else batch_flush b)"

text \<open>
  How each of the two strategies of \<^verbatim>\<open>create_with_partitions\<close> treats a unit: the
  multiprocessing strategy batches with its own two bounds, the inline \<open>RunTask\<close> hands
  every unit to the next step at once and never holds one back.
\<close>

fun strategy_submit :: "strategy \<Rightarrow> real \<Rightarrow> 'a \<Rightarrow> 'a batch_state \<Rightarrow> 'a batch_state" where
  "strategy_submit (RunTaskWithMultiprocessing fn nx mbs mbt p ibs obs) now x b = batch_submit mbs mbt now x b"
| "strategy_submit (RunTask fn nx) now x b = b\<lparr>flushed := flushed b @ [[x]]\<rparr>"

fun strategy_poll :: "strategy \<Rightarrow> real \<Rightarrow> 'a batch_state \<Rightarrow> 'a batch_state" where
  "strategy_poll (RunTaskWithMultiprocessing fn nx mbs mbt p ibs obs) now b = batch_poll mbt now b"
| "strategy_poll (RunTask fn nx) now b = b"

fun strategy_close :: "strategy \<Rightarrow> 'a batch_state \<Rightarrow> 'a batch_state" where
  "strategy_close (RunTaskWithMultiprocessing fn nx mbs mbt p ibs obs) b = batch_close b"
| "strategy_close (RunTask fn nx) b = b"

text \<open>The driver's inputs while it runs: a unit arriving at a time, or a poll at a time.\<close>

datatype 'a event = Submit real 'a | Poll real

fun strategy_step :: "strategy \<Rightarrow> 'a event \<Rightarrow> 'a batch_state \<Rightarrow> 'a batch_state" where
  "strategy_step st (Submit now x) b = strategy_submit st now x b"
| "strategy_step st (Poll now) b = strategy_poll st now b"

fun strategy_run :: "strategy \<Rightarrow> 'a event list \<Rightarrow> 'a batch_state \<Rightarrow> 'a batch_state" where
  "strategy_run st [] b = b"
| "strategy_run st (ev # evs) b = strategy_run st evs (strategy_step st ev b)"

fun submitted :: "'a event list \<Rightarrow> 'a list" where
  "submitted [] = []"
| "submitted (Submit now x # evs) = x # submitted evs"
| "submitted (Poll now # evs) = submitted evs"

definition empty_batch :: "'a batch_state" where
  "empty_batch = \<lparr>batch_items = [], batch_start = None, flushed = []\<rparr>"

text \<open>
  Modelled from the spec: the stream driver of section 4.6 is arroyo's and is not among
  the source files. Its states are \<open>Unstarted\<close>, \<open>Running\<close>, \<open>ShuttingDown\<close> and
  \<open>Stopped\<close>. On a stop signal a running driver stops polling and flushes all pending
  batches; it then calls the worker pool's shutdown, here through the factory's
  \<open>shutdown\<close>, and is stopped.
\<close>

datatype phase = Unstarted | Running | ShuttingDown | Stopped

record 'a driver =
  driver_phase :: phase
  driver_strategy :: strategy
  driver_factory :: factory
  driver_batch :: "'a batch_state"
  driver_heap :: heap

definition begin_shutdown :: "'a driver \<Rightarrow> 'a driver" where
  "begin_shutdown d =
    (if driver_phase d = Running
     then d\<lparr>driver_phase := ShuttingDown, driver_batch := strategy_close (driver_strategy d) (driver_batch d)\<rparr>
     else d)"

definition finish_shutdown :: "'a driver \<Rightarrow> 'a driver" where
  "finish_shutdown d =
    (if driver_phase d = ShuttingDown
     then (case shutdown (driver_factory d) (driver_heap d) of
             (f, h) \<Rightarrow> d\<lparr>driver_phase := Stopped, driver_factory := f, driver_heap := h\<rparr>)
     else d)"

definition driver_shutdown :: "'a driver \<Rightarrow> 'a driver" where
  "driver_shutdown d = finish_shutdown (begin_shutdown d)"

section \<open>Example inputs\<close>

text \<open>Concrete collaborators and inputs at which the theorems below are evaluated.\<close>

definition example_decode :: "bytes \<Rightarrow> exc + (string \<times> string) list" where
  "example_decode b =
    (if b = ''ok'' then Inr [(''result'', ''ok'')] else Inl (OtherException ''ValidationError''))"

definition example_codec :: codec where
  "example_codec = Codec ''events-subscription-results'' example_decode"

definition example_get_codec :: "string \<Rightarrow> exc + codec" where
  "example_get_codec lt =
    (if lt = ''events-subscription-results'' then Inr example_codec
     else Inl (OtherException ''SchemaNotFound''))"

definition quiet_handler :: "handler_call list \<Rightarrow> handler_call \<Rightarrow> exc option" where
  "quiet_handler hist call = None"

definition raising_handler :: "handler_call list \<Rightarrow> handler_call \<Rightarrow> exc option" where
  "raising_handler hist call = (if hc_offset call = 5 then Some (OtherException ''boom'') else None)"

definition interrupted_handler :: "handler_call list \<Rightarrow> handler_call \<Rightarrow> exc option" where
  "interrupted_handler hist call = (if hc_offset call = 5 then Some KeyboardInterrupt else None)"

definition msg_at :: "int \<Rightarrow> bytes \<Rightarrow> Message" where
  "msg_at k b =
    Message (BrokerValue (KafkaPayload None b []) (Partition ''events-subscription-results'' 0) k 0)"

definition s0 :: proc_state where
  "s0 = \<lparr>handler_calls = [], logged = []\<rparr>"

definition example_topic_to_dataset :: "string \<rightharpoonup> Dataset" where
  "example_topic_to_dataset =
    [''events-subscription-results'' \<mapsto> Dataset ''events'',
     ''transactions-subscription-results'' \<mapsto> Dataset ''transactions'']"

definition example_dataset_to_logical_topic :: "Dataset \<rightharpoonup> string" where
  "example_dataset_to_logical_topic =
    [Dataset ''events'' \<mapsto> ''events-subscription-results'',
     Dataset ''transactions'' \<mapsto> ''transactions-subscription-results'']"

definition h0 :: heap where
  "h0 = \<lparr>pools = [], os_slots = 8\<rparr>"

definition example_env :: kafka_env where
  "example_env = \<lparr>topic_cluster = (\<lambda>t. Inr ''default''), cluster_options = (\<lambda>c. Inr [])\<rparr>"

definition example_factory :: "bool \<Rightarrow> factory" where
  "example_factory mp =
    \<lparr>topic = ''events-subscription-results'', dataset = Dataset ''events'',
     logical_topic = ''events-subscription-results'', max_batch_size = 10, max_batch_time = 1,
     input_block_size = None, output_block_size = None, multi_proc = mp, pool = 0\<rparr>"

definition h1 :: heap where
  "h1 = \<lparr>pools = [\<lparr>pool_slots = 4, pool_in_flight = [], pool_closed = False\<rparr>], os_slots = 4\<rparr>"

text \<open>The store after one task was handed to the pool of the example factory.\<close>

definition h2 :: heap where
  "h2 = \<lparr>pools = [\<lparr>pool_slots = 4, pool_in_flight = [7], pool_closed = False\<rparr>], os_slots = 4\<rparr>"

text \<open>
  A running driver of the example factory's multiprocessing strategy that has accepted
  four units at time 0: fewer than \<open>max_batch_size\<close>, and \<open>max_batch_time\<close> has not passed.
\<close>

definition four_submits :: "nat event list" where
  "four_submits = [Submit 0 1, Submit 0 2, Submit 0 3, Submit 0 4]"

definition example_driver :: "nat driver" where
  "example_driver =
    \<lparr>driver_phase = Running,
     driver_strategy = fst (create_with_partitions (example_factory True) h1 0 []),
     driver_factory = example_factory True,
     driver_batch = strategy_run (fst (create_with_partitions (example_factory True) h1 0 [])) four_submits empty_batch,
     driver_heap = h1\<rparr>"

section \<open>The per-message processor: what it calls, what it catches\<close>

lemma process_message_returns:
  assumes "is_BrokerValue (message_value m)"
    and "\<And>e. gc lt = Inl e \<Longrightarrow> is_Exception e"
    and "\<And>hist call e. h hist call = Some e \<Longrightarrow> is_Exception e"
  shows "fst (process_message gc h ds tp lt m s) = Inr ()"
  using assms
  by (cases m; cases "message_value m")
     (auto simp: process_message_def Let_def split: option.splits sum.splits)

lemma process_message_calls:
  assumes "is_BrokerValue (message_value m)" and "gc lt = Inr c"
  shows "handler_calls (snd (process_message gc h ds tp lt m s)) = handler_calls s @ [call_for c ds tp m]"
  using assms
  by (cases m; cases "message_value m")
     (auto simp: process_message_def call_for_def Let_def split: option.splits)

lemma process_message_no_codec:
  assumes "gc lt = Inl e"
  shows "handler_calls (snd (process_message gc h ds tp lt m s)) = handler_calls s"
  using assms
  by (cases m; cases "message_value m")
     (auto simp: process_message_def Let_def split: option.splits)

lemma run_messages_returns:
  assumes "\<forall>m \<in> set ms. is_BrokerValue (message_value m)"
    and "\<And>e. gc lt = Inl e \<Longrightarrow> is_Exception e"
    and "\<And>hist call e. h hist call = Some e \<Longrightarrow> is_Exception e"
  shows "fst (run_messages gc h ds tp lt ms s) = Inr ()"
  using assms(1)
proof (induction ms arbitrary: s)
  case Nil
  then show ?case by simp
next
  case (Cons m ms)
  have "fst (process_message gc h ds tp lt m s) = Inr ()"
    using Cons.prems assms(2,3) by (intro process_message_returns) auto
  then obtain s' where "process_message gc h ds tp lt m s = (Inr (), s')"
    by (cases "process_message gc h ds tp lt m s") auto
  then show ?case using Cons by simp
qed

lemma run_messages_calls:
  assumes "\<forall>m \<in> set ms. is_BrokerValue (message_value m)" and "gc lt = Inr c"
    and "\<And>hist call e. h hist call = Some e \<Longrightarrow> is_Exception e"
  shows "handler_calls (snd (run_messages gc h ds tp lt ms s)) = handler_calls s @ map (call_for c ds tp) ms"
  using assms(1)
proof (induction ms arbitrary: s)
  case Nil
  then show ?case by simp
next
  case (Cons m ms)
  have "fst (process_message gc h ds tp lt m s) = Inr ()"
    using Cons.prems assms(2,3) by (intro process_message_returns) auto
  then obtain s' where s': "process_message gc h ds tp lt m s = (Inr (), s')"
    by (cases "process_message gc h ds tp lt m s") auto
  have "handler_calls s' = handler_calls s @ [call_for c ds tp m]"
    using process_message_calls[of m gc lt c h ds tp s] Cons.prems assms(2) s' by simp
  then show ?case using Cons s' by simp
qed

lemma process_message_logs:
  assumes "gc lt = Inr c"
    and "h (handler_calls s) (call_for c ds tp (Message (BrokerValue pl part off ts))) = Some e"
    and "is_Exception e"
  shows "process_message gc h ds tp lt (Message (BrokerValue pl part off ts)) s =
      (Inr (), \<lparr>handler_calls = handler_calls s @ [call_for c ds tp (Message (BrokerValue pl part off ts))],
                logged = logged s @ [\<lparr>log_text = skip_text, log_exc = e, extra_offset = off,
                    extra_partition = index part, extra_value = payload_value pl\<rparr>]\<rparr>)"
  using assms by (cases s) (simp add: process_message_def call_for_def Let_def)

lemma raising_handler_Exception: "raising_handler hist call = Some e \<Longrightarrow> is_Exception e"
  by (auto simp: raising_handler_def split: if_splits)

text \<open>
  C1, as the code has it. The clause \<^verbatim>\<open>except Exception:\<close> catches what derives from
  \<^verbatim>\<open>Exception\<close>. For a message carrying a \<open>BrokerValue\<close>, with the codec resolved and a
  handler that raises only such exceptions: when the handler raises \<open>e\<close> for the message,
  \<^verbatim>\<open>process_message\<close> returns normally, the handler was called once, and exactly one
  record was logged, with the exception and the context offset, partition and raw
  payload value; the caller sees no difference from a handled message, so nothing is
  retried. Consequently a run over any list of such messages returns normally (the
  consumer does not terminate) and the handler is called for every message, in order,
  also for those that follow a message it raised for.
\<close>

theorem handler_Exception_is_isolated:
  assumes "gc lt = Inr c"
    and "\<forall>hist call e. h hist call = Some e \<longrightarrow> is_Exception e"
    and "\<forall>m \<in> set ms. is_BrokerValue (message_value m)"
  shows "(h (handler_calls s) (call_for c ds tp (Message (BrokerValue pl part off ts))) = Some e \<longrightarrow>
            process_message gc h ds tp lt (Message (BrokerValue pl part off ts)) s =
              (Inr (), \<lparr>handler_calls = handler_calls s @ [call_for c ds tp (Message (BrokerValue pl part off ts))],
                        logged = logged s @ [\<lparr>log_text = skip_text, log_exc = e, extra_offset = off,
                            extra_partition = index part, extra_value = payload_value pl\<rparr>]\<rparr>))
       \<and> fst (run_messages gc h ds tp lt ms s') = Inr ()
       \<and> handler_calls (snd (run_messages gc h ds tp lt ms s')) = handler_calls s' @ map (call_for c ds tp) ms"
proof (intro conjI impI)
  assume "h (handler_calls s) (call_for c ds tp (Message (BrokerValue pl part off ts))) = Some e"
  moreover from this have "is_Exception e" using assms(2) by blast
  ultimately show "process_message gc h ds tp lt (Message (BrokerValue pl part off ts)) s =
      (Inr (), \<lparr>handler_calls = handler_calls s @ [call_for c ds tp (Message (BrokerValue pl part off ts))],
                logged = logged s @ [\<lparr>log_text = skip_text, log_exc = e, extra_offset = off,
                    extra_partition = index part, extra_value = payload_value pl\<rparr>]\<rparr>)"
    using assms(1) by (intro process_message_logs)
next
  show "fst (run_messages gc h ds tp lt ms s') = Inr ()"
    using assms by (intro run_messages_returns) auto
next
  show "handler_calls (snd (run_messages gc h ds tp lt ms s')) = handler_calls s' @ map (call_for c ds tp) ms"
    using assms by (intro run_messages_calls) auto
qed

text \<open>
  The theorem at a handler that raises for offset 5: the message is logged and skipped,
  and the message at offset 6 reaches the handler.
\<close>

theorem handler_Exception_is_isolated_witness:
  "example_get_codec ''events-subscription-results'' = Inr example_codec
   \<and> raising_handler [] (call_for example_codec (Dataset ''events'') ''events-subscription-results'' (msg_at 5 ''p''))
       = Some (OtherException ''boom'')
   \<and> process_message example_get_codec raising_handler (Dataset ''events'') ''events-subscription-results''
       ''events-subscription-results'' (msg_at 5 ''p'') s0 =
       (Inr (), \<lparr>handler_calls = [call_for example_codec (Dataset ''events'') ''events-subscription-results'' (msg_at 5 ''p'')],
                 logged = [\<lparr>log_text = skip_text, log_exc = OtherException ''boom'', extra_offset = 5,
                            extra_partition = 0, extra_value = ''p''\<rparr>]\<rparr>)
   \<and> fst (run_messages example_get_codec raising_handler (Dataset ''events'') ''events-subscription-results''
       ''events-subscription-results'' [msg_at 5 ''p'', msg_at 6 ''q''] s0) = Inr ()
   \<and> map hc_offset (handler_calls (snd (run_messages example_get_codec raising_handler (Dataset ''events'')
       ''events-subscription-results'' ''events-subscription-results'' [msg_at 5 ''p'', msg_at 6 ''q''] s0))) = [5, 6]"
proof -
  have gc: "example_get_codec ''events-subscription-results'' = Inr example_codec"
    by (simp add: example_get_codec_def)
  have hx: "\<forall>hist call e. raising_handler hist call = Some e \<longrightarrow> is_Exception e"
    using raising_handler_Exception by blast
  have bv: "\<forall>m \<in> set [msg_at 5 ''p'', msg_at 6 ''q'']. is_BrokerValue (message_value m)"
    by (simp add: msg_at_def)
  have r: "raising_handler [] (call_for example_codec (Dataset ''events'') ''events-subscription-results'' (msg_at 5 ''p''))
       = Some (OtherException ''boom'')"
    by (simp add: raising_handler_def call_for_def msg_at_def)
  note t = handler_Exception_is_isolated[of example_get_codec "''events-subscription-results''" example_codec
      raising_handler "[msg_at 5 ''p'', msg_at 6 ''q'']" s0 "Dataset ''events''" "''events-subscription-results''"
      "KafkaPayload None ''p'' []" "Partition ''events-subscription-results'' 0" 5 0 "OtherException ''boom''" s0,
      OF gc hx bv]
  from t have a: "process_message example_get_codec raising_handler (Dataset ''events'') ''events-subscription-results''
       ''events-subscription-results'' (msg_at 5 ''p'') s0 =
       (Inr (), \<lparr>handler_calls = [call_for example_codec (Dataset ''events'') ''events-subscription-results'' (msg_at 5 ''p'')],
                 logged = [\<lparr>log_text = skip_text, log_exc = OtherException ''boom'', extra_offset = 5,
                            extra_partition = 0, extra_value = ''p''\<rparr>]\<rparr>)"
    using r by (simp add: msg_at_def s0_def)
  from t have b: "fst (run_messages example_get_codec raising_handler (Dataset ''events'') ''events-subscription-results''
       ''events-subscription-results'' [msg_at 5 ''p'', msg_at 6 ''q''] s0) = Inr ()" by blast
  from t have c: "handler_calls (snd (run_messages example_get_codec raising_handler (Dataset ''events'')
       ''events-subscription-results'' ''events-subscription-results'' [msg_at 5 ''p'', msg_at 6 ''q''] s0))
       = handler_calls s0 @ map (call_for example_codec (Dataset ''events'') ''events-subscription-results'') [msg_at 5 ''p'', msg_at 6 ''q'']"
    by blast
  have d: "map hc_offset (handler_calls (snd (run_messages example_get_codec raising_handler (Dataset ''events'')
       ''events-subscription-results'' ''events-subscription-results'' [msg_at 5 ''p'', msg_at 6 ''q''] s0))) = [5, 6]"
    unfolding c by (simp add: s0_def call_for_def msg_at_def)
  show ?thesis using gc r a b d by simp
qed

text \<open>
  C1 as stated ("any exception") fails: a handler that raises \<open>KeyboardInterrupt\<close> for
  offset 5 is not caught. Nothing is logged, the exception leaves the run, and the
  message at offset 6 never reaches the handler.
\<close>

theorem handler_BaseException_escapes:
  "run_messages example_get_codec interrupted_handler (Dataset ''events'') ''events-subscription-results''
     ''events-subscription-results'' [msg_at 5 ''p'', msg_at 6 ''q''] s0 =
   (Inl KeyboardInterrupt,
     \<lparr>handler_calls = [call_for example_codec (Dataset ''events'') ''events-subscription-results'' (msg_at 5 ''p'')],
      logged = []\<rparr>)"
  by (simp add: process_message_def example_get_codec_def interrupted_handler_def msg_at_def s0_def call_for_def)

text \<open>
  C2, as the code has it. For a message carrying a \<open>BrokerValue\<close>, \<^verbatim>\<open>process_message\<close>
  extracts the offset, the partition's index and the raw payload, resolves the codec of
  the logical topic and, when that succeeds, calls the handler exactly once with the six
  arguments (raw payload, offset, partition index, topic, dataset value, codec). The
  payload is handed over as the raw bytes together with the codec: the function does
  not decode, so the call does not depend on whether the payload decodes. When the
  codec cannot be resolved the handler is not called.
\<close>

theorem handler_receives_raw_payload:
  "(gc lt = Inr c \<longrightarrow>
      handler_calls (snd (process_message gc h ds tp lt (Message (BrokerValue pl part off ts)) s)) =
        handler_calls s @ [\<lparr>hc_payload = payload_value pl, hc_offset = off, hc_partition = index part,
                            hc_topic = tp, hc_dataset = dataset_value ds, hc_codec = c\<rparr>])
   \<and> (gc lt = Inl e \<longrightarrow>
      handler_calls (snd (process_message gc h ds tp lt (Message (BrokerValue pl part off ts)) s)) =
        handler_calls s)"
  by (auto simp: process_message_def Let_def split: option.splits)

text \<open>The theorem at a registered and at an unregistered logical topic.\<close>

theorem handler_receives_raw_payload_witness:
  "example_get_codec ''events-subscription-results'' = Inr example_codec
   \<and> handler_calls (snd (process_message example_get_codec quiet_handler (Dataset ''events'')
        ''events-subscription-results'' ''events-subscription-results'' (msg_at 7 ''ok'') s0)) =
      [\<lparr>hc_payload = ''ok'', hc_offset = 7, hc_partition = 0, hc_topic = ''events-subscription-results'',
        hc_dataset = ''events'', hc_codec = example_codec\<rparr>]
   \<and> example_get_codec ''no-such-topic'' = Inl (OtherException ''SchemaNotFound'')
   \<and> handler_calls (snd (process_message example_get_codec quiet_handler (Dataset ''events'')
        ''events-subscription-results'' ''no-such-topic'' (msg_at 7 ''ok'') s0)) = []"
proof -
  have gc: "example_get_codec ''events-subscription-results'' = Inr example_codec"
    by (simp add: example_get_codec_def)
  have gc': "example_get_codec ''no-such-topic'' = Inl (OtherException ''SchemaNotFound'')"
    by (simp add: example_get_codec_def)
  show ?thesis
    using gc gc'
      handler_receives_raw_payload[of example_get_codec "''events-subscription-results''" example_codec
        quiet_handler "Dataset ''events''" "''events-subscription-results''" "KafkaPayload None ''ok'' []"
        "Partition ''events-subscription-results'' 0" 7 0 s0 "OtherException ''x''"]
      handler_receives_raw_payload[of example_get_codec "''no-such-topic''" example_codec
        quiet_handler "Dataset ''events''" "''events-subscription-results''" "KafkaPayload None ''ok'' []"
        "Partition ''events-subscription-results'' 0" 7 0 s0 "OtherException ''SchemaNotFound''"]
    by (simp add: msg_at_def s0_def)
qed

text \<open>
  C2 as stated fails: the payload \<open>not-json\<close> does not decode under the topic's codec,
  and the handler is called all the same, with the raw bytes.
\<close>

theorem handler_called_without_decoding:
  "decode example_codec ''not-json'' = Inl (OtherException ''ValidationError'')
   \<and> handler_calls (snd (process_message example_get_codec quiet_handler (Dataset ''events'')
        ''events-subscription-results'' ''events-subscription-results'' (msg_at 7 ''not-json'') s0)) =
      [\<lparr>hc_payload = ''not-json'', hc_offset = 7, hc_partition = 0, hc_topic = ''events-subscription-results'',
        hc_dataset = ''events'', hc_codec = example_codec\<rparr>]"
  by (simp add: process_message_def example_get_codec_def example_codec_def example_decode_def
      quiet_handler_def msg_at_def s0_def)

text \<open>
  C8. \<^verbatim>\<open>process_message\<close> asserts that the message's value is a \<open>BrokerValue\<close> before
  the \<^verbatim>\<open>try\<close> block: for a message whose value is not one (the only other form is
  \<open>Value\<close>) the call ends with \<open>AssertionError\<close>, whatever the handler and the codec
  registry are; nothing was logged and the handler was not called.
\<close>

theorem process_message_assertion_propagates:
  "process_message gc h ds tp lt (Message (Value pl cm)) s = (Inl AssertionError, s)"
  by (simp add: process_message_def)

section \<open>The factory: construction, strategies, shutdown\<close>

lemma ex_init: "QuerySubscriptionStrategyFactory example_topic_to_dataset example_dataset_to_logical_topic
   ''events-subscription-results'' 10 1 4 None None mp h0 = Inr (example_factory mp, h1)"
  by (simp add: QuerySubscriptionStrategyFactory_def example_topic_to_dataset_def
      example_dataset_to_logical_topic_def MultiprocessingPool_def h0_def h1_def example_factory_def)

lemma factory_init_Inr:
  assumes "QuerySubscriptionStrategyFactory t2d d2l tp mbs mbt n ibs obs mp h = Inr (f, h')"
  shows "\<exists>ds lt. t2d tp = Some ds \<and> d2l ds = Some lt \<and> 0 \<le> n \<and> n \<le> os_slots h
     \<and> f = \<lparr>topic = tp, dataset = ds, logical_topic = lt, max_batch_size = mbs, max_batch_time = mbt,
             input_block_size = ibs, output_block_size = obs, multi_proc = mp, pool = length (pools h)\<rparr>
     \<and> h' = h\<lparr>pools := pools h @ [\<lparr>pool_slots = n, pool_in_flight = [], pool_closed = False\<rparr>],
               os_slots := os_slots h - n\<rparr>"
  using assms
  by (auto simp: QuerySubscriptionStrategyFactory_def MultiprocessingPool_def
      split: option.splits if_splits)

lemma factory_init_calls:
  assumes "QuerySubscriptionStrategyFactory t2d d2l tp mbs mbt n ibs obs mp h = Inr (f, h')"
  shows "\<exists>ds lt. t2d tp = Some ds \<and> d2l ds = Some lt \<and> MultiprocessingPool n h = Inr (pool f, h')
     \<and> f = \<lparr>topic = tp, dataset = ds, logical_topic = lt, max_batch_size = mbs, max_batch_time = mbt,
             input_block_size = ibs, output_block_size = obs, multi_proc = mp, pool = pool f\<rparr>"
  using assms
  by (auto simp: QuerySubscriptionStrategyFactory_def split: option.splits sum.splits)

lemma create_many_frame:
  "create_many f h rs = (map (\<lambda>(c, ps). fst (create_with_partitions f h c ps)) rs, f, h)"
  by (induction rs) (auto simp: create_with_partitions_def Let_def)

lemma consumer_Inr:
  assumes "get_query_subscription_consumer env t2d d2l tp gid sor ior mbs mbt n ibs obs mp h = Inr (sp, h')"
  shows "commit_policy sp = ONCE_PER_SECOND \<and> sp_topic sp = tp
     \<and> QuerySubscriptionStrategyFactory t2d d2l tp mbs mbt n ibs obs mp h = Inr (processor_factory sp, h')"
  using assms
  by (auto simp: get_query_subscription_consumer_def Let_def split: sum.splits)

lemma ex_consumer:
  "get_query_subscription_consumer example_env example_topic_to_dataset example_dataset_to_logical_topic
     ''events-subscription-results'' ''group'' False ''latest'' 10 1 4 None None False h0 =
   Inr (\<lparr>sp_consumer = KafkaConsumer \<lparr>cfg_cluster_options = [], cfg_group_id = ''group'',
            cfg_strict_offset_reset = False, cfg_auto_offset_reset = ''latest''\<rparr>,
         sp_topic = ''events-subscription-results'', processor_factory = example_factory False,
         commit_policy = ONCE_PER_SECOND\<rparr>, h1)"
  by (simp add: get_query_subscription_consumer_def example_env_def ex_init)

text \<open>
  C4, as the code has it. Constructing the factory with a topic that has no entry in
  \<^verbatim>\<open>topic_to_dataset\<close> fails with the \<open>KeyError\<close> of the dictionary lookup (line 40),
  for that topic; the error leaves \<^verbatim>\<open>get_query_subscription_consumer\<close> as it is, so
  startup fails and no message is ever processed. Constructing it with a topic that is
  mapped to a dataset which in turn has a logical topic, when the pool constructor
  returns, succeeds and binds the topic, its dataset and its logical topic; neither
  \<^verbatim>\<open>create_with_partitions\<close> nor \<^verbatim>\<open>shutdown\<close> changes the factory afterwards.
\<close>

theorem factory_binds_topic_or_KeyError:
  "(t2d tp = None \<longrightarrow>
      QuerySubscriptionStrategyFactory t2d d2l tp mbs mbt n ibs obs mp h = Inl (KeyError tp)
      \<and> (topic_cluster env tp = Inr cl \<and> cluster_options env cl = Inr opts \<longrightarrow>
           get_query_subscription_consumer env t2d d2l tp gid sor ior mbs mbt n ibs obs mp h = Inl (KeyError tp)))
   \<and> (t2d tp = Some ds \<and> d2l ds = Some lt \<and> MultiprocessingPool n h = Inr (p, h') \<longrightarrow>
      (\<exists>f. QuerySubscriptionStrategyFactory t2d d2l tp mbs mbt n ibs obs mp h = Inr (f, h')
         \<and> topic f = tp \<and> dataset f = ds \<and> logical_topic f = lt
         \<and> fst (snd (create_with_partitions f h' c ps)) = f
         \<and> fst (shutdown f h') = f))"
  by (auto simp: QuerySubscriptionStrategyFactory_def
      get_query_subscription_consumer_def create_with_partitions_def shutdown_def Let_def)

text \<open>The theorem at an unmapped and at a mapped topic.\<close>

theorem factory_binds_topic_or_KeyError_witness:
  "example_topic_to_dataset ''unknown-topic'' = None
   \<and> QuerySubscriptionStrategyFactory example_topic_to_dataset example_dataset_to_logical_topic
        ''unknown-topic'' 10 1 4 None None True h0 = Inl (KeyError ''unknown-topic'')
   \<and> get_query_subscription_consumer example_env example_topic_to_dataset example_dataset_to_logical_topic
        ''unknown-topic'' ''group'' False ''latest'' 10 1 4 None None True h0 = Inl (KeyError ''unknown-topic'')
   \<and> example_topic_to_dataset ''events-subscription-results'' = Some (Dataset ''events'')
   \<and> example_dataset_to_logical_topic (Dataset ''events'') = Some ''events-subscription-results''
   \<and> MultiprocessingPool 4 h0 = Inr (0, h1)
   \<and> (\<exists>f. QuerySubscriptionStrategyFactory example_topic_to_dataset example_dataset_to_logical_topic
        ''events-subscription-results'' 10 1 4 None None True h0 = Inr (f, h1)
        \<and> topic f = ''events-subscription-results'' \<and> dataset f = Dataset ''events''
        \<and> logical_topic f = ''events-subscription-results'')"
proof -
  have a: "example_topic_to_dataset ''unknown-topic'' = None"
    by (simp add: example_topic_to_dataset_def)
  have b: "example_topic_to_dataset ''events-subscription-results'' = Some (Dataset ''events'')"
    by (simp add: example_topic_to_dataset_def)
  have c: "example_dataset_to_logical_topic (Dataset ''events'') = Some ''events-subscription-results''"
    by (simp add: example_dataset_to_logical_topic_def)
  have e: "topic_cluster example_env ''unknown-topic'' = Inr ''default''"
    "cluster_options example_env ''default'' = Inr []"
    by (simp_all add: example_env_def)
  have o: "MultiprocessingPool 4 h0 = Inr (0, h1)"
    by (simp add: MultiprocessingPool_def h0_def h1_def)
  show ?thesis
    using a b c e o
      factory_binds_topic_or_KeyError[of example_topic_to_dataset "''unknown-topic''"
        example_dataset_to_logical_topic 10 1 4 None None True h0 example_env "''default''" "[]"
        "''group''" False "''latest''" "Dataset ''events''" "''events-subscription-results''" 0 h1 0 "[]"]
      factory_binds_topic_or_KeyError[of example_topic_to_dataset "''events-subscription-results''"
        example_dataset_to_logical_topic 10 1 4 None None True h0 example_env "''default''" "[]"
        "''group''" False "''latest''" "Dataset ''events''" "''events-subscription-results''" 0 h1 0 "[]"]
    by auto
qed

text \<open>
  C4 as stated fails in the error it names: for an unmapped topic the constructor ends
  with \<open>KeyError\<close>, not with \<open>UnknownTopicError\<close>.
\<close>

theorem unknown_topic_raises_KeyError:
  "QuerySubscriptionStrategyFactory example_topic_to_dataset example_dataset_to_logical_topic
      ''unknown-topic'' 10 1 4 None None True h0 = Inl (KeyError ''unknown-topic'')
   \<and> QuerySubscriptionStrategyFactory example_topic_to_dataset example_dataset_to_logical_topic
      ''unknown-topic'' 10 1 4 None None True h0 \<noteq> Inl (UnknownTopicError ''unknown-topic'')"
  by (simp add: QuerySubscriptionStrategyFactory_def example_topic_to_dataset_def)

text \<open>
  C5. Whenever \<^verbatim>\<open>get_query_subscription_consumer\<close> returns a stream processor, its
  commit policy is the constant \<^verbatim>\<open>ONCE_PER_SECOND\<close>: an interval of one second and no
  message threshold. Under that policy a commit is due exactly when one second has
  passed since the last commit, whatever the number of messages seen since: never
  earlier because messages arrived, so never once per message.
\<close>

theorem consumer_commits_once_per_second:
  assumes "get_query_subscription_consumer env t2d d2l tp gid sor ior mbs mbt n ibs obs mp h = Inr (sp, h')"
  shows "commit_policy sp = ONCE_PER_SECOND
     \<and> min_commit_frequency_sec (commit_policy sp) = Some 1
     \<and> min_commit_messages (commit_policy sp) = None
     \<and> should_commit (commit_policy sp) last_commit now k = (1 \<le> now - last_commit)"
  using consumer_Inr[OF assms]
  by (simp add: ONCE_PER_SECOND_def should_commit_def)

text \<open>
  The theorem at the example configuration: half a second after a commit nothing is
  committed even after a thousand messages; one second after it a commit is due even
  with no message.
\<close>

theorem consumer_commits_once_per_second_witness:
  "get_query_subscription_consumer example_env example_topic_to_dataset example_dataset_to_logical_topic
     ''events-subscription-results'' ''group'' False ''latest'' 10 1 4 None None False h0 =
   Inr (\<lparr>sp_consumer = KafkaConsumer \<lparr>cfg_cluster_options = [], cfg_group_id = ''group'',
            cfg_strict_offset_reset = False, cfg_auto_offset_reset = ''latest''\<rparr>,
         sp_topic = ''events-subscription-results'', processor_factory = example_factory False,
         commit_policy = ONCE_PER_SECOND\<rparr>, h1)
   \<and> \<not> should_commit ONCE_PER_SECOND 10 (10 + 1 / 2) 1000
   \<and> should_commit ONCE_PER_SECOND 10 11 0"
  using ex_consumer
    consumer_commits_once_per_second[OF ex_consumer, of 10 "10 + 1 / 2" 1000]
    consumer_commits_once_per_second[OF ex_consumer, of 10 11 0]
  by simp

text \<open>
  C6. Constructing the factory starts a pool of \<open>num_processes\<close> slots: a new object in
  the store, open, with nothing in flight, and it accepts work. The factory's
  \<^verbatim>\<open>shutdown\<close>, in whatever state \<open>hx\<close> the store is by then (any tasks may be in
  flight), changes exactly that pool: nothing is in flight any more, all its slots are
  released to the operating system, and it is closed. Submitting to it afterwards fails
  with \<open>PoolClosedError\<close> and leaves no task behind.
\<close>

theorem pool_started_and_closed_by_factory:
  assumes "QuerySubscriptionStrategyFactory t2d d2l tp mbs mbt n ibs obs mp h = Inr (f, h')"
    and "pool f < length (pools hx)"
  shows "pool f = length (pools h)
     \<and> pools h' = pools h @ [\<lparr>pool_slots = n, pool_in_flight = [], pool_closed = False\<rparr>]
     \<and> os_slots h' = os_slots h - n
     \<and> pool_submit (pool f) task h' =
          Inr (0, h'\<lparr>pools := pools h @ [\<lparr>pool_slots = n, pool_in_flight = [task], pool_closed = False\<rparr>]\<rparr>)
     \<and> fst (shutdown f hx) = f
     \<and> pools (snd (shutdown f hx)) =
          (pools hx)[pool f := \<lparr>pool_slots = 0, pool_in_flight = [], pool_closed = True\<rparr>]
     \<and> os_slots (snd (shutdown f hx)) = os_slots hx + pool_slots (pools hx ! pool f)
     \<and> pool_submit (pool f) task (snd (shutdown f hx)) = Inl PoolClosedError"
proof -
  from factory_init_Inr[OF assms(1)] have
    f: "pool f = length (pools h)"
    and h': "h' = h\<lparr>pools := pools h @ [\<lparr>pool_slots = n, pool_in_flight = [], pool_closed = False\<rparr>],
               os_slots := os_slots h - n\<rparr>"
    by auto
  have open_pool: "pool_submit (pool f) task h' =
          Inr (0, h'\<lparr>pools := pools h @ [\<lparr>pool_slots = n, pool_in_flight = [task], pool_closed = False\<rparr>]\<rparr>)"
    unfolding h' f by (simp add: pool_submit_def Let_def)
  have closed: "pools (snd (shutdown f hx)) =
          (pools hx)[pool f := \<lparr>pool_slots = 0, pool_in_flight = [], pool_closed = True\<rparr>]"
    using assms(2) by (cases "pools hx ! pool f") (simp add: shutdown_def pool_close_def Let_def)
  have slots: "os_slots (snd (shutdown f hx)) = os_slots hx + pool_slots (pools hx ! pool f)"
    using assms(2) by (simp add: shutdown_def pool_close_def Let_def)
  have refused: "pool_submit (pool f) task (snd (shutdown f hx)) = Inl PoolClosedError"
    using assms(2) closed by (simp add: pool_submit_def Let_def)
  show ?thesis
    using f h' open_pool closed slots refused by (simp add: shutdown_def)
qed

text \<open>The theorem at the example factory, shut down while task 7 is in flight.\<close>

theorem pool_started_and_closed_by_factory_witness:
  "QuerySubscriptionStrategyFactory example_topic_to_dataset example_dataset_to_logical_topic
     ''events-subscription-results'' 10 1 4 None None True h0 = Inr (example_factory True, h1)
   \<and> pool (example_factory True) < length (pools h2)
   \<and> pools h1 = [\<lparr>pool_slots = 4, pool_in_flight = [], pool_closed = False\<rparr>]
   \<and> pool_submit (pool (example_factory True)) 7 h1 = Inr (0, h2)
   \<and> pools (snd (shutdown (example_factory True) h2)) =
        [\<lparr>pool_slots = 0, pool_in_flight = [], pool_closed = True\<rparr>]
   \<and> os_slots (snd (shutdown (example_factory True) h2)) = 8
   \<and> pool_submit (pool (example_factory True)) 7 (snd (shutdown (example_factory True) h2)) = Inl PoolClosedError"
proof -
  have i: "QuerySubscriptionStrategyFactory example_topic_to_dataset example_dataset_to_logical_topic
     ''events-subscription-results'' 10 1 4 None None True h0 = Inr (example_factory True, h1)"
    by (rule ex_init)
  have p: "pool (example_factory True) < length (pools h2)"
    by (simp add: example_factory_def h2_def)
  note t = pool_started_and_closed_by_factory[OF i p, of 7]
  have a: "pools h1 = [\<lparr>pool_slots = 4, pool_in_flight = [], pool_closed = False\<rparr>]"
    using t by (auto simp: h0_def)
  have b: "pool_submit (pool (example_factory True)) 7 h1 = Inr (0, h2)"
    using t by (auto simp: h0_def h1_def h2_def example_factory_def)
  have c: "pools (snd (shutdown (example_factory True) h2)) =
        [\<lparr>pool_slots = 0, pool_in_flight = [], pool_closed = True\<rparr>]"
    using t by (auto simp: h2_def example_factory_def)
  have d: "os_slots (snd (shutdown (example_factory True) h2)) = 8"
    using t by (auto simp: h2_def example_factory_def)
  have e: "pool_submit (pool (example_factory True)) 7 (snd (shutdown (example_factory True) h2)) = Inl PoolClosedError"
    using t by blast
  show ?thesis using i p a b c d e by simp
qed

text \<open>
  C9. The pool is allocated whatever \<open>multi_proc\<close> is. When the factory is constructed
  with \<open>multi_proc\<close> false, the pool constructor has been called with \<open>num_processes\<close>
  and the factory holds the pool it returned, exactly as in a construction with
  \<open>multi_proc\<close> true; the strategy \<^verbatim>\<open>create_with_partitions\<close> returns holds no
  reference to a pool and the call leaves the store as it is; and the factory's
  \<^verbatim>\<open>shutdown\<close> still closes that pool.
\<close>

theorem pool_allocated_when_inline:
  assumes "QuerySubscriptionStrategyFactory t2d d2l tp mbs mbt n ibs obs False h = Inr (f, h')"
  shows "MultiprocessingPool n h = Inr (pool f, h')
     \<and> QuerySubscriptionStrategyFactory t2d d2l tp mbs mbt n ibs obs True h = Inr (f\<lparr>multi_proc := True\<rparr>, h')
     \<and> strategy_pool (fst (create_with_partitions f h' c ps)) = None
     \<and> snd (snd (create_with_partitions f h' c ps)) = h'
     \<and> shutdown f h' = (f, pool_close (pool f) h')"
proof -
  from factory_init_calls[OF assms] obtain ds lt where
    k: "t2d tp = Some ds" "d2l ds = Some lt" "MultiprocessingPool n h = Inr (pool f, h')"
    and f: "f = \<lparr>topic = tp, dataset = ds, logical_topic = lt, max_batch_size = mbs, max_batch_time = mbt,
             input_block_size = ibs, output_block_size = obs, multi_proc = False, pool = pool f\<rparr>"
    by blast
  have mp: "\<not> multi_proc f" by (subst f) simp
  have t: "QuerySubscriptionStrategyFactory t2d d2l tp mbs mbt n ibs obs True h = Inr (f\<lparr>multi_proc := True\<rparr>, h')"
    using k by (subst f) (simp add: QuerySubscriptionStrategyFactory_def)
  show ?thesis
    using k(3) t mp by (simp add: create_with_partitions_def shutdown_def)
qed

text \<open>The theorem at the example configuration with \<open>multi_proc\<close> false.\<close>

theorem pool_allocated_when_inline_witness:
  "QuerySubscriptionStrategyFactory example_topic_to_dataset example_dataset_to_logical_topic
     ''events-subscription-results'' 10 1 4 None None False h0 = Inr (example_factory False, h1)
   \<and> MultiprocessingPool 4 h0 = Inr (0, h1)
   \<and> pools h1 = [\<lparr>pool_slots = 4, pool_in_flight = [], pool_closed = False\<rparr>]
   \<and> strategy_pool (fst (create_with_partitions (example_factory False) h1 0 [])) = None
   \<and> pools (snd (shutdown (example_factory False) h1)) = [\<lparr>pool_slots = 0, pool_in_flight = [], pool_closed = True\<rparr>]"
proof -
  note t = pool_allocated_when_inline[OF ex_init[of False], of 0 "[]"]
  have p: "pool (example_factory False) = 0" by (simp add: example_factory_def)
  have a: "MultiprocessingPool 4 h0 = Inr (0, h1)" using t unfolding p by blast
  have b: "pools h1 = [\<lparr>pool_slots = 4, pool_in_flight = [], pool_closed = False\<rparr>]"
    by (simp add: h1_def)
  have c: "strategy_pool (fst (create_with_partitions (example_factory False) h1 0 [])) = None"
    using t by blast
  have s: "shutdown (example_factory False) h1 = (example_factory False, pool_close 0 h1)"
    using t unfolding p by blast
  have d: "pools (snd (shutdown (example_factory False) h1)) = [\<lparr>pool_slots = 0, pool_in_flight = [], pool_closed = True\<rparr>]"
    unfolding s by (simp add: pool_close_def h1_def)
  show ?thesis using ex_init[of False] a b c d by simp
qed

text \<open>
  C10. \<^verbatim>\<open>create_with_partitions\<close> never changes the factory or the store: after one
  call, and after any number of successive calls (one per rebalance), the factory with
  all nine of its fields and the store of pools are what they were. One strategy is made
  per call, and with \<open>multi_proc\<close> set every one of them refers to the factory's single
  pool.
\<close>

theorem create_with_partitions_keeps_factory:
  "snd (create_with_partitions f h c ps) = (f, h)
   \<and> snd (create_many f h rs) = (f, h)
   \<and> (multi_proc f \<longrightarrow> list_all (\<lambda>st. strategy_pool st = Some (pool f)) (fst (create_many f h rs)))
   \<and> length (fst (create_many f h rs)) = length rs"
  unfolding create_many_frame
  by (auto simp: create_with_partitions_def Let_def list_all_iff)

text \<open>The theorem at two successive rebalances of the example factory.\<close>

theorem create_with_partitions_keeps_factory_witness:
  "multi_proc (example_factory True)
   \<and> snd (create_many (example_factory True) h1 [(0, []), (1, [(Partition ''events-subscription-results'' 0, 42)])])
       = (example_factory True, h1)
   \<and> map strategy_pool (fst (create_many (example_factory True) h1
         [(0, []), (1, [(Partition ''events-subscription-results'' 0, 42)])])) = [Some 0, Some 0]"
  using create_with_partitions_keeps_factory[of "example_factory True" h1 0 "[]"
      "[(0, []), (1, [(Partition ''events-subscription-results'' 0, 42)])]"]
  by (simp add: example_factory_def create_with_partitions_def)

section \<open>Batching: when a batch is flushed, and what shutdown does with it\<close>

lemma strategy_run_append:
  "strategy_run st (evs @ evs') b = strategy_run st evs' (strategy_run st evs b)"
  by (induction evs arbitrary: b) auto

lemma batch_poll_contents:
  "concat (flushed (batch_poll mbt now b)) @ batch_items (batch_poll mbt now b) =
   concat (flushed b) @ batch_items b"
  by (simp add: batch_poll_def batch_flush_def)

lemma batch_submit_contents:
  "concat (flushed (batch_submit mbs mbt now x b)) @ batch_items (batch_submit mbs mbt now x b) =
   concat (flushed b) @ batch_items b @ [x]"
  using batch_poll_contents[of mbt now b]
  by (simp add: batch_submit_def batch_flush_def Let_def)

lemma RunTask_step_holds_nothing:
  "batch_items (strategy_step (RunTask fn nx) ev b) = batch_items b"
  by (cases ev) simp_all

lemma strategy_step_contents:
  assumes "strategy_pool st = None \<longrightarrow> batch_items b = []"
  shows "concat (flushed (strategy_step st ev b)) @ batch_items (strategy_step st ev b) =
   concat (flushed b) @ batch_items b @ submitted [ev]"
proof (cases st)
  case (RunTaskWithMultiprocessing fn nx mbs mbt p ibs obs)
  then show ?thesis
    by (cases ev) (simp_all add: batch_submit_contents batch_poll_contents)
next
  case (RunTask fn nx)
  then show ?thesis using assms by (cases ev) simp_all
qed

lemma submitted_Cons: "submitted (ev # evs) = submitted [ev] @ submitted evs"
  by (cases ev) simp_all

lemma strategy_run_contents:
  assumes "strategy_pool st = None \<longrightarrow> batch_items b = []"
  shows "concat (flushed (strategy_run st evs b)) @ batch_items (strategy_run st evs b) =
   concat (flushed b) @ batch_items b @ submitted evs"
  using assms
proof (induction evs arbitrary: b)
  case Nil
  then show ?case by simp
next
  case (Cons ev evs)
  have keep: "strategy_pool st = None \<longrightarrow> batch_items (strategy_step st ev b) = []"
    using Cons.prems by (cases st) (simp_all add: RunTask_step_holds_nothing)
  have "concat (flushed (strategy_run st (ev # evs) b)) @ batch_items (strategy_run st (ev # evs) b) =
        concat (flushed (strategy_step st ev b)) @ batch_items (strategy_step st ev b) @ submitted evs"
    using Cons.IH[OF keep] by simp
  also have "\<dots> = concat (flushed b) @ batch_items b @ submitted [ev] @ submitted evs"
    using strategy_step_contents[OF Cons.prems, of ev] by simp
  finally show ?case using submitted_Cons[of ev evs] by simp
qed

lemma RunTask_holds_nothing:
  "batch_items (strategy_run (RunTask fn nx) evs b) = batch_items b"
proof (induction evs arbitrary: b)
  case Nil
  then show ?case by simp
next
  case (Cons ev evs)
  then show ?case by (simp add: RunTask_step_holds_nothing)
qed

lemma strategy_close_contents:
  assumes "batch_items b = [] \<or> strategy_pool st \<noteq> None"
  shows "batch_items (strategy_close st b) = []"
    and "concat (flushed (strategy_close st b)) = concat (flushed b) @ batch_items b"
    and "batch_items b \<noteq> [] \<Longrightarrow> flushed (strategy_close st b) = flushed b @ [batch_items b]"
  using assms by (cases st; simp add: batch_close_def batch_flush_def)+

lemma run_same_time_no_flush:
  assumes "0 < mbt" and "int (length ys + length zs) < mbs"
    and "start = (if ys = [] then None else Some t)"
  shows "strategy_run (RunTaskWithMultiprocessing fn nx mbs mbt p ibs obs) (map (Submit t) zs)
           \<lparr>batch_items = ys, batch_start = start, flushed = fl\<rparr> =
         \<lparr>batch_items = ys @ zs, batch_start = (if ys @ zs = [] then None else Some t), flushed = fl\<rparr>"
  using assms(2,3)
proof (induction zs arbitrary: ys start)
  case Nil
  then show ?case by simp
next
  case (Cons z zs)
  have step: "batch_submit mbs mbt t z \<lparr>batch_items = ys, batch_start = start, flushed = fl\<rparr> =
        \<lparr>batch_items = ys @ [z], batch_start = Some t, flushed = fl\<rparr>"
    using Cons.prems assms(1)
    by (simp add: batch_submit_def batch_poll_def batch_time_due_def batch_flush_def Let_def)
  have "strategy_run (RunTaskWithMultiprocessing fn nx mbs mbt p ibs obs) (map (Submit t) zs)
           \<lparr>batch_items = ys @ [z], batch_start = Some t, flushed = fl\<rparr> =
         \<lparr>batch_items = (ys @ [z]) @ zs, batch_start = (if (ys @ [z]) @ zs = [] then None else Some t), flushed = fl\<rparr>"
    using Cons.prems by (intro Cons.IH) auto
  then show ?case using step by simp
qed

lemma full_batch_one_flush:
  assumes "0 < mbt" and "xs \<noteq> []" and "mbs = int (length xs)"
  shows "strategy_run (RunTaskWithMultiprocessing fn nx mbs mbt p ibs obs) (map (Submit t) xs) empty_batch =
         \<lparr>batch_items = [], batch_start = None, flushed = [xs]\<rparr>"
proof -
  obtain ys y where xs: "xs = ys @ [y]" using assms(2) by (metis rev_exhaust)
  have a: "strategy_run (RunTaskWithMultiprocessing fn nx mbs mbt p ibs obs) (map (Submit t) ys) empty_batch =
        \<lparr>batch_items = ys, batch_start = (if ys = [] then None else Some t), flushed = []\<rparr>"
    using run_same_time_no_flush[of mbt "[]" ys mbs None t fn nx p ibs obs "[]"] assms(1,3) xs
    by (simp add: empty_batch_def)
  have b: "batch_submit mbs mbt t y \<lparr>batch_items = ys, batch_start = (if ys = [] then None else Some t), flushed = []\<rparr>
       = \<lparr>batch_items = [], batch_start = None, flushed = [ys @ [y]]\<rparr>"
    using assms(1,3) xs
    by (simp add: batch_submit_def batch_poll_def batch_time_due_def batch_flush_def Let_def)
  show ?thesis
    unfolding xs map_append strategy_run_append a using b by simp
qed


text \<open>
  C3. With \<open>multi_proc\<close> set, \<^verbatim>\<open>create_with_partitions\<close> returns the multiprocessing
  strategy built from the per-message callable, a \<open>CommitOffsets\<close> stage for the commit
  callback, and the factory's \<open>max_batch_size\<close>, \<open>max_batch_time\<close>, pool and block sizes.
  Its open batch is flushed, with exactly the items queued, once the time since its
  first item reaches \<open>max_batch_time\<close>; before that, a poll flushes nothing, and a unit
  that brings the count to \<open>max_batch_size\<close> has the batch flushed with it, while any
  other unit only joins the batch. Submitting \<open>max_batch_size\<close> units with no time
  passing gives exactly one flush, of those units. With \<open>multi_proc\<close> not set it returns
  an inline \<open>RunTask\<close> of the same callable feeding \<open>CommitOffsets\<close>, which holds no pool
  and hands each unit on at once.
\<close>

theorem create_with_partitions_builds_strategy:
  "(multi_proc f \<longrightarrow>
      fst (create_with_partitions f h c ps) =
        RunTaskWithMultiprocessing (partial_process_message (dataset f) (topic f) (logical_topic f))
          (CommitOffsets c) (max_batch_size f) (max_batch_time f) (pool f)
          (input_block_size f) (output_block_size f)
      \<and> (xs \<noteq> [] \<and> real_of_int (max_batch_time f) \<le> now - t0 \<longrightarrow>
           strategy_poll (fst (create_with_partitions f h c ps)) now
             \<lparr>batch_items = xs, batch_start = Some t0, flushed = fl\<rparr> =
           \<lparr>batch_items = [], batch_start = None, flushed = fl @ [xs]\<rparr>)
      \<and> (now - t0 < real_of_int (max_batch_time f) \<longrightarrow>
           strategy_poll (fst (create_with_partitions f h c ps)) now
             \<lparr>batch_items = xs, batch_start = Some t0, flushed = fl\<rparr> =
           \<lparr>batch_items = xs, batch_start = Some t0, flushed = fl\<rparr>
         \<and> strategy_submit (fst (create_with_partitions f h c ps)) now x
             \<lparr>batch_items = xs, batch_start = Some t0, flushed = fl\<rparr> =
           (if max_batch_size f \<le> int (length xs) + 1
            then \<lparr>batch_items = [], batch_start = None, flushed = fl @ [xs @ [x]]\<rparr>
            else \<lparr>batch_items = xs @ [x], batch_start = Some t0, flushed = fl\<rparr>))
      \<and> (0 < max_batch_time f \<and> ys \<noteq> [] \<and> max_batch_size f = int (length ys) \<longrightarrow>
           strategy_run (fst (create_with_partitions f h c ps)) (map (Submit t) ys) empty_batch =
           \<lparr>batch_items = [], batch_start = None, flushed = [ys]\<rparr>))
   \<and> (\<not> multi_proc f \<longrightarrow>
      fst (create_with_partitions f h c ps) =
        RunTask (partial_process_message (dataset f) (topic f) (logical_topic f)) (CommitOffsets c)
      \<and> strategy_pool (fst (create_with_partitions f h c ps)) = None
      \<and> strategy_submit (fst (create_with_partitions f h c ps)) now x b = b\<lparr>flushed := flushed b @ [[x]]\<rparr>)"
proof (intro conjI impI)
  assume mp: "multi_proc f"
  then show st: "fst (create_with_partitions f h c ps) =
        RunTaskWithMultiprocessing (partial_process_message (dataset f) (topic f) (logical_topic f))
          (CommitOffsets c) (max_batch_size f) (max_batch_time f) (pool f)
          (input_block_size f) (output_block_size f)"
    by (simp add: create_with_partitions_def)
  {
    assume "xs \<noteq> [] \<and> real_of_int (max_batch_time f) \<le> now - t0"
    then show "strategy_poll (fst (create_with_partitions f h c ps)) now
             \<lparr>batch_items = xs, batch_start = Some t0, flushed = fl\<rparr> =
           \<lparr>batch_items = [], batch_start = None, flushed = fl @ [xs]\<rparr>"
      unfolding st by (simp add: batch_poll_def batch_time_due_def batch_flush_def)
  }
  {
    assume early: "now - t0 < real_of_int (max_batch_time f)"
    then show "strategy_poll (fst (create_with_partitions f h c ps)) now
             \<lparr>batch_items = xs, batch_start = Some t0, flushed = fl\<rparr> =
           \<lparr>batch_items = xs, batch_start = Some t0, flushed = fl\<rparr>"
      unfolding st by (simp add: batch_poll_def batch_time_due_def)
    from early show "strategy_submit (fst (create_with_partitions f h c ps)) now x
             \<lparr>batch_items = xs, batch_start = Some t0, flushed = fl\<rparr> =
           (if max_batch_size f \<le> int (length xs) + 1
            then \<lparr>batch_items = [], batch_start = None, flushed = fl @ [xs @ [x]]\<rparr>
            else \<lparr>batch_items = xs @ [x], batch_start = Some t0, flushed = fl\<rparr>)"
      unfolding st
      by (simp add: batch_submit_def batch_poll_def batch_time_due_def batch_flush_def Let_def)
  }
  {
    assume "0 < max_batch_time f \<and> ys \<noteq> [] \<and> max_batch_size f = int (length ys)"
    then show "strategy_run (fst (create_with_partitions f h c ps)) (map (Submit t) ys) empty_batch =
           \<lparr>batch_items = [], batch_start = None, flushed = [ys]\<rparr>"
      unfolding st by (intro full_batch_one_flush) auto
  }
next
  assume np: "\<not> multi_proc f"
  then show st: "fst (create_with_partitions f h c ps) =
        RunTask (partial_process_message (dataset f) (topic f) (logical_topic f)) (CommitOffsets c)"
    by (simp add: create_with_partitions_def)
  show "strategy_pool (fst (create_with_partitions f h c ps)) = None"
    unfolding st by simp
  show "strategy_submit (fst (create_with_partitions f h c ps)) now x b = b\<lparr>flushed := flushed b @ [[x]]\<rparr>"
    unfolding st by simp
qed

text \<open>
  The theorem at the example factory (\<open>max_batch_size\<close> 10, \<open>max_batch_time\<close> 1): ten
  units at once are one flush; three units are flushed by a poll one and a half seconds
  after the first; a fourth unit after half a second only joins them.
\<close>

theorem create_with_partitions_builds_strategy_witness:
  "multi_proc (example_factory True)
   \<and> fst (create_with_partitions (example_factory True) h1 0 []) =
       RunTaskWithMultiprocessing
         (partial_process_message (Dataset ''events'') ''events-subscription-results'' ''events-subscription-results'')
         (CommitOffsets 0) 10 1 0 None None
   \<and> strategy_run (fst (create_with_partitions (example_factory True) h1 0 []))
         (map (Submit 0) [1, 2, 3, 4, 5, 6, 7, 8, 9, 10 :: nat]) empty_batch =
       \<lparr>batch_items = [], batch_start = None, flushed = [[1, 2, 3, 4, 5, 6, 7, 8, 9, 10]]\<rparr>
   \<and> strategy_poll (fst (create_with_partitions (example_factory True) h1 0 [])) (3 / 2)
         \<lparr>batch_items = [1, 2, 3 :: nat], batch_start = Some 0, flushed = []\<rparr> =
       \<lparr>batch_items = [], batch_start = None, flushed = [[1, 2, 3]]\<rparr>
   \<and> strategy_submit (fst (create_with_partitions (example_factory True) h1 0 [])) (1 / 2) 4
         \<lparr>batch_items = [1, 2, 3 :: nat], batch_start = Some 0, flushed = []\<rparr> =
       \<lparr>batch_items = [1, 2, 3, 4], batch_start = Some 0, flushed = []\<rparr>
   \<and> \<not> multi_proc (example_factory False)
   \<and> fst (create_with_partitions (example_factory False) h1 0 []) =
       RunTask (partial_process_message (Dataset ''events'') ''events-subscription-results'' ''events-subscription-results'')
         (CommitOffsets 0)
   \<and> strategy_submit (fst (create_with_partitions (example_factory False) h1 0 [])) 0 (1 :: nat) empty_batch =
       \<lparr>batch_items = [], batch_start = None, flushed = [[1]]\<rparr>"
proof -
  have mp: "multi_proc (example_factory True)" and np: "\<not> multi_proc (example_factory False)"
    by (simp_all add: example_factory_def)
  have fields: "max_batch_size (example_factory True) = 10" "max_batch_time (example_factory True) = 1"
    "dataset (example_factory mp') = Dataset ''events''" "topic (example_factory mp') = ''events-subscription-results''"
    "logical_topic (example_factory mp') = ''events-subscription-results''" "pool (example_factory mp') = 0"
    "input_block_size (example_factory mp') = None" "output_block_size (example_factory mp') = None"
    for mp'
    by (simp_all add: example_factory_def)
  note full = create_with_partitions_builds_strategy[of "example_factory True" h1 0 "[]"
      "[1, 2, 3 :: nat]" "3 / 2" 0 "[]" 4 "[1, 2, 3, 4, 5, 6, 7, 8, 9, 10 :: nat]" 0 empty_batch]
  note part = create_with_partitions_builds_strategy[of "example_factory True" h1 0 "[]"
      "[1, 2, 3 :: nat]" "1 / 2" 0 "[]" 4 "[1, 2, 3, 4, 5, 6, 7, 8, 9, 10 :: nat]" 0 empty_batch]
  note inline = create_with_partitions_builds_strategy[of "example_factory False" h1 0 "[]"
      "[1, 2, 3 :: nat]" 0 0 "[]" 1 "[1, 2, 3, 4, 5, 6, 7, 8, 9, 10 :: nat]" 0 empty_batch]
  have due: "[1, 2, 3 :: nat] \<noteq> [] \<and> real_of_int (max_batch_time (example_factory True)) \<le> 3 / 2 - 0"
    by (simp add: fields)
  have early: "1 / 2 - 0 < real_of_int (max_batch_time (example_factory True))"
    by (simp add: fields)
  have ten: "0 < max_batch_time (example_factory True) \<and> [1, 2, 3, 4, 5, 6, 7, 8, 9, 10 :: nat] \<noteq> []
      \<and> max_batch_size (example_factory True) = int (length [1, 2, 3, 4, 5, 6, 7, 8, 9, 10 :: nat])"
    by (simp add: fields)
  have a': "fst (create_with_partitions (example_factory True) h1 0 []) =
        RunTaskWithMultiprocessing (partial_process_message (dataset (example_factory True))
          (topic (example_factory True)) (logical_topic (example_factory True)))
          (CommitOffsets 0) (max_batch_size (example_factory True)) (max_batch_time (example_factory True))
          (pool (example_factory True)) (input_block_size (example_factory True))
          (output_block_size (example_factory True))"
    using full mp by blast
  have a: "fst (create_with_partitions (example_factory True) h1 0 []) =
       RunTaskWithMultiprocessing
         (partial_process_message (Dataset ''events'') ''events-subscription-results'' ''events-subscription-results'')
         (CommitOffsets 0) 10 1 0 None None"
    unfolding a' by (simp add: fields)
  have b: "strategy_run (fst (create_with_partitions (example_factory True) h1 0 []))
         (map (Submit 0) [1, 2, 3, 4, 5, 6, 7, 8, 9, 10 :: nat]) empty_batch =
       \<lparr>batch_items = [], batch_start = None, flushed = [[1, 2, 3, 4, 5, 6, 7, 8, 9, 10]]\<rparr>"
    using full mp ten by blast
  have c: "strategy_poll (fst (create_with_partitions (example_factory True) h1 0 [])) (3 / 2)
         \<lparr>batch_items = [1, 2, 3 :: nat], batch_start = Some 0, flushed = []\<rparr> =
       \<lparr>batch_items = [], batch_start = None, flushed = [] @ [[1, 2, 3]]\<rparr>"
    using full mp due by blast
  have d': "strategy_submit (fst (create_with_partitions (example_factory True) h1 0 [])) (1 / 2) 4
         \<lparr>batch_items = [1, 2, 3 :: nat], batch_start = Some 0, flushed = []\<rparr> =
       (if max_batch_size (example_factory True) \<le> int (length [1, 2, 3 :: nat]) + 1
        then \<lparr>batch_items = [], batch_start = None, flushed = [] @ [[1, 2, 3] @ [4]]\<rparr>
        else \<lparr>batch_items = [1, 2, 3] @ [4], batch_start = Some 0, flushed = []\<rparr>)"
    using part mp early by blast
  have d: "strategy_submit (fst (create_with_partitions (example_factory True) h1 0 [])) (1 / 2) 4
         \<lparr>batch_items = [1, 2, 3 :: nat], batch_start = Some 0, flushed = []\<rparr> =
       \<lparr>batch_items = [1, 2, 3, 4], batch_start = Some 0, flushed = []\<rparr>"
    unfolding d' by (simp add: fields)
  have e': "fst (create_with_partitions (example_factory False) h1 0 []) =
        RunTask (partial_process_message (dataset (example_factory False))
          (topic (example_factory False)) (logical_topic (example_factory False))) (CommitOffsets 0)"
    using inline np by blast
  have e: "fst (create_with_partitions (example_factory False) h1 0 []) =
       RunTask (partial_process_message (Dataset ''events'') ''events-subscription-results'' ''events-subscription-results'')
         (CommitOffsets 0)"
    unfolding e' by (simp add: fields)
  have g': "strategy_submit (fst (create_with_partitions (example_factory False) h1 0 [])) 0 (1 :: nat) empty_batch =
       empty_batch\<lparr>flushed := flushed empty_batch @ [[1]]\<rparr>"
    using inline np by blast
  have g: "strategy_submit (fst (create_with_partitions (example_factory False) h1 0 [])) 0 (1 :: nat) empty_batch =
       \<lparr>batch_items = [], batch_start = None, flushed = [[1]]\<rparr>"
    unfolding g' by (simp add: empty_batch_def)
  show ?thesis using mp np a b c d e g by simp
qed

text \<open>
  C7. When a running driver that has fed any sequence of units and polls to its strategy
  is shut down, the first step of the shutdown leaves no item in the open batch:
  everything submitted has been flushed downstream, in order, and a partial batch that
  was open goes out as one last batch. The pool is still untouched at that point; only
  then does the factory's \<open>shutdown\<close> close it, and the driver is stopped with the flushed
  batches as they were.
\<close>

theorem shutdown_flushes_partial_batch:
  assumes "driver_phase d = Running"
    and "driver_batch d = strategy_run (driver_strategy d) evs empty_batch"
  shows "driver_phase (begin_shutdown d) = ShuttingDown
     \<and> batch_items (driver_batch (begin_shutdown d)) = []
     \<and> concat (flushed (driver_batch (begin_shutdown d))) = submitted evs
     \<and> (batch_items (driver_batch d) \<noteq> [] \<longrightarrow>
          flushed (driver_batch (begin_shutdown d)) = flushed (driver_batch d) @ [batch_items (driver_batch d)])
     \<and> driver_heap (begin_shutdown d) = driver_heap d
     \<and> driver_phase (driver_shutdown d) = Stopped
     \<and> driver_batch (driver_shutdown d) = driver_batch (begin_shutdown d)
     \<and> driver_heap (driver_shutdown d) = pool_close (pool (driver_factory d)) (driver_heap d)"
proof -
  let ?st = "driver_strategy d"
  let ?b = "driver_batch d"
  have e0: "strategy_pool ?st = None \<longrightarrow> batch_items (empty_batch :: 'a batch_state) = []"
    by (simp add: empty_batch_def)
  have contents: "concat (flushed ?b) @ batch_items ?b = submitted evs"
    using strategy_run_contents[OF e0, of evs] assms(2) by (simp add: empty_batch_def)
  have held: "batch_items ?b = [] \<or> strategy_pool ?st \<noteq> None"
  proof (cases ?st)
    case (RunTaskWithMultiprocessing fn nx mbs mbt p ibs obs)
    then show ?thesis by simp
  next
    case (RunTask fn nx)
    then show ?thesis
      using assms(2) RunTask_holds_nothing[of fn nx evs "empty_batch :: 'a batch_state"]
      by (simp add: empty_batch_def)
  qed
  have bs: "begin_shutdown d = d\<lparr>driver_phase := ShuttingDown, driver_batch := strategy_close ?st ?b\<rparr>"
    using assms(1) by (simp add: begin_shutdown_def)
  have 1: "batch_items (strategy_close ?st ?b) = []"
    using strategy_close_contents(1)[OF held] .
  have 2: "concat (flushed (strategy_close ?st ?b)) = submitted evs"
    using strategy_close_contents(2)[OF held] contents by simp
  have 3: "batch_items ?b \<noteq> [] \<longrightarrow> flushed (strategy_close ?st ?b) = flushed ?b @ [batch_items ?b]"
    using strategy_close_contents(3)[OF held] by blast
  show ?thesis
    unfolding driver_shutdown_def bs using 1 2 3
    by (simp add: finish_shutdown_def shutdown_def)
qed

text \<open>The theorem at a partial batch of four items, below \<open>max_batch_size\<close>.\<close>

theorem shutdown_flushes_partial_batch_witness:
  "driver_phase example_driver = Running
   \<and> driver_batch example_driver = strategy_run (driver_strategy example_driver) four_submits empty_batch
   \<and> driver_batch example_driver = \<lparr>batch_items = [1, 2, 3, 4], batch_start = Some 0, flushed = []\<rparr>
   \<and> driver_batch (begin_shutdown example_driver) = \<lparr>batch_items = [], batch_start = None, flushed = [[1, 2, 3, 4]]\<rparr>
   \<and> driver_phase (driver_shutdown example_driver) = Stopped
   \<and> concat (flushed (driver_batch (driver_shutdown example_driver))) = [1, 2, 3, 4]
   \<and> driver_heap (driver_shutdown example_driver) =
       \<lparr>pools = [\<lparr>pool_slots = 0, pool_in_flight = [], pool_closed = True\<rparr>], os_slots = 8\<rparr>"
proof -
  have r: "driver_phase example_driver = Running"
    by (simp add: example_driver_def)
  have b: "driver_batch example_driver = strategy_run (driver_strategy example_driver) four_submits empty_batch"
    by (simp add: example_driver_def)
  have v: "driver_batch example_driver = \<lparr>batch_items = [1, 2, 3, 4], batch_start = Some 0, flushed = []\<rparr>"
    by (simp add: example_driver_def four_submits_def create_with_partitions_def example_factory_def
        empty_batch_def batch_submit_def batch_poll_def batch_time_due_def batch_flush_def Let_def)
  note t = shutdown_flushes_partial_batch[OF r b]
  have w: "driver_batch (begin_shutdown example_driver) = \<lparr>batch_items = [], batch_start = None, flushed = [[1, 2, 3, 4]]\<rparr>"
    using r v by (simp add: begin_shutdown_def example_driver_def create_with_partitions_def
        example_factory_def batch_close_def batch_flush_def)
  have p: "driver_phase (driver_shutdown example_driver) = Stopped" using t by blast
  have c: "concat (flushed (driver_batch (driver_shutdown example_driver))) = [1, 2, 3, 4]"
    using t by (simp add: four_submits_def)
  have h: "driver_heap (driver_shutdown example_driver) =
       \<lparr>pools = [\<lparr>pool_slots = 0, pool_in_flight = [], pool_closed = True\<rparr>], os_slots = 8\<rparr>"
    using t by (simp add: example_driver_def example_factory_def h1_def pool_close_def)
  show ?thesis using r b v w p c h by simp
qed

end
